theory Spec2Isabelle
  imports Complex_Main "HOL-Library.AList"
begin

section \<open>Python values\<close>

text \<open>
  The adapter of \<^verbatim>\<open>upairag/models/UpaiLLM.py\<close> moves dynamically typed values around:
  the entries of \<^verbatim>\<open>llm_params\<close>, the messages of a prompt and the fields of a
  response. They are modelled by one datatype of Python values. A dictionary with string
  keys is an association list in insertion order. A float is represented by the rational
  number that is its exact value; the program performs no arithmetic on floats.
\<close>

datatype pyval =
    PNone
  | PBool bool
  | PInt int
  | PFloat rat
  | PStr string
  | PList "pyval list"
  | PDict "(string \<times> pyval) list"

type_synonym pydict = "(string \<times> pyval) list"

text \<open>Python's truth value testing, as \<^verbatim>\<open>or\<close>, \<^verbatim>\<open>not\<close> and \<^verbatim>\<open>if\<close> apply it.\<close>

fun truthy :: "pyval \<Rightarrow> bool" where
  "truthy PNone = False"
| "truthy (PBool b) = b"
| "truthy (PInt i) = (i \<noteq> 0)"
| "truthy (PFloat x) = (x \<noteq> 0)"
| "truthy (PStr s) = (s \<noteq> [])"
| "truthy (PList xs) = (xs \<noteq> [])"
| "truthy (PDict d) = (d \<noteq> [])"

text \<open>\<^verbatim>\<open>a or b\<close>\<close>

definition py_or :: "pyval \<Rightarrow> pyval \<Rightarrow> pyval" where
  "py_or a b = (if truthy a then a else b)"

text \<open>\<^verbatim>\<open>d.get(k)\<close>: the value under the key, \<^verbatim>\<open>None\<close> when the key is missing.\<close>

definition dict_get :: "pydict \<Rightarrow> string \<Rightarrow> pyval" where
  "dict_get d k = (case map_of d k of None \<Rightarrow> PNone | Some v \<Rightarrow> v)"

text \<open>
  \<^verbatim>\<open>d.update(other)\<close>: the entries of \<^verbatim>\<open>other\<close> are stored into \<^verbatim>\<open>d\<close> one after the
  other; a key already present keeps its position and takes the new value, a new key is
  appended.
\<close>

definition dict_update :: "pydict \<Rightarrow> pydict \<Rightarrow> pydict" where
  "dict_update d other = fold (\<lambda>(k, v). AList.update k v) other d"

text \<open>The keys of a Python dictionary are unique.\<close>

definition is_dict :: "pydict \<Rightarrow> bool" where
  "is_dict d = distinct (map fst d)"

section \<open>Exceptions\<close>

text \<open>
  An exception is its class and the text \<^verbatim>\<open>str(e)\<close> yields. The classes that the
  program itself can raise are listed; \<open>OtherException\<close> stands for any other subclass
  of \<^verbatim>\<open>Exception\<close> (a provider or transport error of the completion library). The last
  three classes derive from \<^verbatim>\<open>BaseException\<close> only, so \<^verbatim>\<open>except Exception\<close> does not
  catch them.
\<close>

datatype exn_class =
    ValueError
  | IndexError
  | KeyError
  | TypeError
  | AttributeError
  | OtherException
  | KeyboardInterrupt
  | SystemExit
  | GeneratorExit

datatype exn = Raised (class_of: exn_class) (str_exn: string)

fun is_Exception :: "exn \<Rightarrow> bool" where
  "is_Exception (Raised KeyboardInterrupt s) = False"
| "is_Exception (Raised SystemExit s) = False"
| "is_Exception (Raised GeneratorExit s) = False"
| "is_Exception (Raised c s) = True"

section \<open>The adapter\<close>

record UpaiLLM =
  llm_params :: pydict
  llm_identifier :: pyval
  access_token :: pyval

text \<open>
  Lines 16 to 22 of \<^verbatim>\<open>__init__\<close>: the three assignments to \<^verbatim>\<open>self\<close>. The arguments
  default to \<^verbatim>\<open>None\<close>; \<^verbatim>\<open>llm_params\<close> is a dictionary or \<^verbatim>\<open>None\<close>.
\<close>

definition resolve_config :: "pyval \<Rightarrow> pyval \<Rightarrow> pydict option \<Rightarrow> UpaiLLM" where
  "resolve_config llm_identifier0 access_token0 llm_params0 =
     (let params = (case llm_params0 of None \<Rightarrow> [] | Some d \<Rightarrow> if d \<noteq> [] then d else []);
          ident = py_or llm_identifier0 (dict_get params ''model'');
          token = py_or access_token0 (dict_get params ''access_token'')
      in \<lparr>llm_params = params, llm_identifier = ident, access_token = token\<rparr>)"

text \<open>
  \<^verbatim>\<open>__init__\<close>: the assignments, then the two checks of lines 25 to 33. A raised
  \<^verbatim>\<open>ValueError\<close> leaves the caller without an instance.
\<close>

definition UpaiLLM_init :: "pyval \<Rightarrow> pyval \<Rightarrow> pydict option \<Rightarrow> exn + UpaiLLM" where
  "UpaiLLM_init llm_identifier0 access_token0 llm_params0 =
     (let self = resolve_config llm_identifier0 access_token0 llm_params0
      in if \<not> truthy (access_token self) then
           Inl (Raised ValueError
             ''Access token must be provided either directly or in the llm_params.'')
         else if \<not> truthy (llm_identifier self) then
           Inl (Raised ValueError
             ''LLM model identifier must be provided either directly or in the llm_params.'')
         else Inr self)"

subsection \<open>Prompts and the request payload\<close>

type_synonym message = pydict

type_synonym prompt_sequence = "message list"

text \<open>The list of prompt sequences as the Python value stored under \<^verbatim>\<open>"messages"\<close>.\<close>

definition prompts_value :: "prompt_sequence list \<Rightarrow> pyval" where
  "prompts_value prompt_sequences = PList (map (\<lambda>messages. PList (map PDict messages)) prompt_sequences)"

definition base_payload :: "UpaiLLM \<Rightarrow> prompt_sequence list \<Rightarrow> pydict" where
  "base_payload self prompt_sequences =
     [(''model'', llm_identifier self),
      (''messages'', prompts_value prompt_sequences),
      (''temperature'', PFloat 0),
      (''api_key'', access_token self)]"

definition construct_request_payload :: "UpaiLLM \<Rightarrow> prompt_sequence list \<Rightarrow> pydict" where
  "construct_request_payload self prompt_sequences =
     (let request_payload = base_payload self prompt_sequences
      in if llm_params self \<noteq> [] then dict_update request_payload (llm_params self)
         else request_payload)"

subsection \<open>Responses of the completion library\<close>

text \<open>
  A response object has a list of choices, each with a message content, and possibly a
  \<^verbatim>\<open>usage\<close> attribute whose \<^verbatim>\<open>to_dict()\<close> returns a dictionary or raises.
  \<open>usage r = None\<close> is \<^verbatim>\<open>hasattr(response, "usage")\<close> being false.
\<close>

datatype choice = Choice (message_content: pyval)

datatype usage_obj = Usage (to_dict: "exn + pydict")

datatype response = Response (choices: "choice list") (usage: "usage_obj option")

text \<open>
  \<^verbatim>\<open>batch_completion(**payload)\<close> is external: it is a parameter that returns a list of
  responses or raises.
\<close>

type_synonym batch_completion = "pydict \<Rightarrow> exn + response list"

text \<open>\<^verbatim>\<open>response.choices[0].message.content\<close>\<close>

definition first_choice_content :: "response \<Rightarrow> exn + pyval" where
  "first_choice_content r =
     (case choices r of
        [] \<Rightarrow> Inl (Raised IndexError ''list index out of range'')
      | c # cs \<Rightarrow> Inr (message_content c))"

text \<open>\<^verbatim>\<open>response.usage.to_dict() if hasattr(response, "usage") else None\<close>\<close>

definition usage_value :: "response \<Rightarrow> exn + pyval" where
  "usage_value r =
     (case usage r of
        None \<Rightarrow> Inr PNone
      | Some u \<Rightarrow> (case to_dict u of Inl e \<Rightarrow> Inl e | Inr d \<Rightarrow> Inr (PDict d)))"

text \<open>
  \<^verbatim>\<open>messages[0]["content"]\<close>: \<^verbatim>\<open>IndexError\<close> on an empty sequence, \<^verbatim>\<open>KeyError\<close>
  (whose text is the quoted key) on a first message without the key.
\<close>

definition first_query :: "prompt_sequence \<Rightarrow> exn + pyval" where
  "first_query messages =
     (case messages of
        [] \<Rightarrow> Inl (Raised IndexError ''list index out of range'')
      | m # ms \<Rightarrow>
          (case map_of m ''content'' of
             None \<Rightarrow> Inl (Raised KeyError (CHR 0x27 # ''content'' @ [CHR 0x27]))
           | Some v \<Rightarrow> Inr v))"

subsection \<open>Batch processing\<close>

text \<open>
  A list comprehension evaluates its element expression for each item in order; the
  first exception ends it.
\<close>

fun comprehension :: "('a \<Rightarrow> exn + 'b) \<Rightarrow> 'a list \<Rightarrow> exn + 'b list" where
  "comprehension f [] = Inr []"
| "comprehension f (x # xs) =
     (case f x of
        Inl e \<Rightarrow> Inl e
      | Inr y \<Rightarrow> (case comprehension f xs of Inl e \<Rightarrow> Inl e | Inr ys \<Rightarrow> Inr (y # ys)))"

text \<open>The dictionary display of lines 81 to 88; its values are evaluated in order.\<close>

definition success_record :: "response \<times> prompt_sequence \<Rightarrow> exn + pydict" where
  "success_record p =
     (case p of (response, messages) \<Rightarrow>
        (case first_choice_content response of
           Inl e \<Rightarrow> Inl e
         | Inr c \<Rightarrow>
             (case first_query messages of
                Inl e \<Rightarrow> Inl e
              | Inr q \<Rightarrow>
                  (case usage_value response of
                     Inl e \<Rightarrow> Inl e
                   | Inr u \<Rightarrow>
                       Inr [(''status'', PBool True),
                            (''content'', c),
                            (''original_query'', q),
                            (''usage'', u)]))))"

text \<open>The dictionary display of lines 94 to 98.\<close>

definition failure_record :: "exn \<Rightarrow> prompt_sequence \<Rightarrow> exn + pydict" where
  "failure_record e messages =
     (case first_query messages of
        Inl x \<Rightarrow> Inl x
      | Inr q \<Rightarrow>
          Inr [(''status'', PBool False),
               (''error'', PStr (str_exn e)),
               (''original_query'', q)])"

text \<open>
  What \<^verbatim>\<open>print\<close> writes is kept as a trace: one entry, the printed response
  collection, for each call of \<^verbatim>\<open>print\<close>. Writing to standard output is taken not to
  raise.
\<close>

type_synonym stdout = "response list list"

text \<open>The body of the \<^verbatim>\<open>try\<close>, lines 72 to 90.\<close>

definition try_body ::
  "UpaiLLM \<Rightarrow> batch_completion \<Rightarrow> prompt_sequence list \<Rightarrow> bool \<Rightarrow> stdout \<times> (exn + pydict list)" where
  "try_body self batch_completion prompt_sequences debug_mode =
     (case batch_completion (construct_request_payload self prompt_sequences) of
        Inl e \<Rightarrow> ([], Inl e)
      | Inr llm_responses \<Rightarrow>
          (if debug_mode then [llm_responses] else [],
           comprehension success_record (zip llm_responses prompt_sequences)))"

text \<open>
  \<^verbatim>\<open>process_batch_prompts\<close>: the \<^verbatim>\<open>try\<close>, and the handler of \<^verbatim>\<open>except Exception\<close>
  (lines 91 to 100). An exception raised inside the handler, and one that is not an
  instance of \<^verbatim>\<open>Exception\<close>, leave the method.
\<close>

definition process_batch_prompts ::
  "UpaiLLM \<Rightarrow> batch_completion \<Rightarrow> prompt_sequence list \<Rightarrow> bool \<Rightarrow> stdout \<times> (exn + pydict list)" where
  "process_batch_prompts self batch_completion prompt_sequences debug_mode =
     (case try_body self batch_completion prompt_sequences debug_mode of
        (out, Inr records) \<Rightarrow> (out, Inr records)
      | (out, Inl e) \<Rightarrow>
          (if is_Exception e then (out, comprehension (failure_record e) prompt_sequences)
           else (out, Inl e)))"

subsection \<open>The payload as an object in a store\<close>

text \<open>
  \<^verbatim>\<open>construct_request_payload\<close> creates a dictionary object and updates it in place,
  while \<^verbatim>\<open>self.llm_params\<close> refers to another dictionary object. To speak about what
  the call changes, dictionary objects live in a store, an address being an index into
  it, and the instance holds the address of its \<^verbatim>\<open>llm_params\<close>.
\<close>

type_synonym addr = nat

type_synonym store = "pydict list"

record UpaiLLM_obj =
  llm_params_ref :: addr
  identifier_field :: pyval
  token_field :: pyval

text \<open>The configuration an instance holds in a given store.\<close>

definition config_of :: "store \<Rightarrow> UpaiLLM_obj \<Rightarrow> UpaiLLM" where
  "config_of st obj =
     \<lparr>llm_params = st ! llm_params_ref obj,
      llm_identifier = identifier_field obj,
      access_token = token_field obj\<rparr>"

text \<open>
  Lines 46 to 57 on the store: the dictionary display allocates a new object,
  \<^verbatim>\<open>update\<close> writes to that object, and the method returns its address.
\<close>

definition construct_request_payload_st ::
  "UpaiLLM_obj \<Rightarrow> prompt_sequence list \<Rightarrow> store \<Rightarrow> addr \<times> store" where
  "construct_request_payload_st obj prompt_sequences st =
     (let request_payload = length st;
          st1 = st @ [[(''model'', identifier_field obj),
                       (''messages'', prompts_value prompt_sequences),
                       (''temperature'', PFloat 0),
                       (''api_key'', token_field obj)]]
      in if st1 ! llm_params_ref obj \<noteq> [] then
           (request_payload,
            st1[request_payload := dict_update (st1 ! request_payload) (st1 ! llm_params_ref obj)])
         else (request_payload, st1))"

section \<open>Inputs used in examples\<close>

text \<open>The double nearest to the literal \<^verbatim>\<open>0.9\<close>.\<close>

definition float_0_9 :: rat where
  "float_0_9 = 8106479329266893 / 9007199254740992"

definition user_message :: "string \<Rightarrow> message" where
  "user_message text = [(''role'', PStr ''user''), (''content'', PStr text)]"

text \<open>\<^verbatim>\<open>UpaiLLM("m", "T")\<close>\<close>

definition adapter_m_T :: UpaiLLM where
  "adapter_m_T = \<lparr>llm_params = [], llm_identifier = PStr ''m'', access_token = PStr ''T''\<rparr>"

text \<open>\<^verbatim>\<open>UpaiLLM("m", "T", {"model": "m", "access_token": "T", "temperature": 0.9})\<close>\<close>

definition adapter_with_temperature :: UpaiLLM where
  "adapter_with_temperature =
     \<lparr>llm_params = [(''model'', PStr ''m''), (''access_token'', PStr ''T''),
                    (''temperature'', PFloat float_0_9)],
      llm_identifier = PStr ''m'', access_token = PStr ''T''\<rparr>"

text \<open>\<^verbatim>\<open>UpaiLLM("m", "T", {"messages": []})\<close>\<close>

definition adapter_with_messages :: UpaiLLM where
  "adapter_with_messages =
     \<lparr>llm_params = [(''messages'', PList [])],
      llm_identifier = PStr ''m'', access_token = PStr ''T''\<rparr>"

text \<open>Batches of one, two and three prompt sequences, and a batch whose only sequence is empty.\<close>

definition one_prompt :: "prompt_sequence list" where
  "one_prompt = [[user_message ''Explain quantum computing'']]"

definition two_prompts :: "prompt_sequence list" where
  "two_prompts =
     [[user_message ''Explain quantum computing''],
      [user_message ''Summarize reinforcement learning'']]"

definition three_prompts :: "prompt_sequence list" where
  "three_prompts = [[user_message ''q1''], [user_message ''q2''], [user_message ''q3'']]"

definition empty_sequence_batch :: "prompt_sequence list" where
  "empty_sequence_batch = [[]]"

text \<open>Behaviours of the external call.\<close>

definition bc_returns_nothing :: batch_completion where
  "bc_returns_nothing payload = Inr []"

definition bc_rate_limited :: batch_completion where
  "bc_rate_limited payload = Inl (Raised OtherException ''rate limited'')"

definition bc_A_B :: batch_completion where
  "bc_A_B payload =
     Inr [Response [Choice (PStr ''A'')] None,
          Response [Choice (PStr ''B'')] (Some (Usage (Inr [(''total_tokens'', PInt 7)])))]"

definition bc_no_choice :: batch_completion where
  "bc_no_choice payload = Inr [Response [Choice (PStr ''A'')] None, Response [] None]"

section \<open>Conditions on inputs\<close>

text \<open>The prompt sequence has a first message, and that message has a content entry.\<close>

definition has_first_content :: "prompt_sequence \<Rightarrow> bool" where
  "has_first_content messages = (messages \<noteq> [] \<and> map_of (hd messages) ''content'' \<noteq> None)"

text \<open>
  The response has a first choice, and its usage statistics, when present, convert to a
  dictionary.
\<close>

definition extractable :: "response \<Rightarrow> bool" where
  "extractable r =
     (choices r \<noteq> [] \<and>
      (case usage r of None \<Rightarrow> True
       | Some u \<Rightarrow> (case to_dict u of Inl e \<Rightarrow> False | Inr d \<Rightarrow> True)))"

text \<open>The status of a result record.\<close>

definition has_status :: "bool \<Rightarrow> pydict \<Rightarrow> bool" where
  "has_status b record = (map_of record ''status'' = Some (PBool b))"

section \<open>Facts about comprehensions and dictionaries\<close>

lemma comprehension_Inr_iff:
  "comprehension f xs = Inr ys \<longleftrightarrow> list_all2 (\<lambda>x y. f x = Inr y) xs ys"
proof (induction xs arbitrary: ys)
  case Nil
  show ?case by auto
next
  case (Cons x xs)
  show ?case
  proof (cases "f x")
    case (Inl e)
    then show ?thesis by (cases ys) auto
  next
    case (Inr y)
    show ?thesis
    proof (cases "comprehension f xs")
      case (Inl e)
      with Cons.IH have "\<And>zs. \<not> list_all2 (\<lambda>x y. f x = Inr y) xs zs" by simp
      with Inl Inr show ?thesis by (cases ys) auto
    next
      case r: (Inr zs)
      have "\<And>us. list_all2 (\<lambda>x y. f x = Inr y) xs us \<longleftrightarrow> us = zs"
        unfolding Cons.IH [symmetric] r by auto
      with r Inr show ?thesis by (cases ys) auto
    qed
  qed
qed

lemma map_of_dict_update:
  "map_of (dict_update d other) = map_of d ++ map_of (rev other)"
  unfolding dict_update_def
proof (induction other arbitrary: d)
  case Nil
  show ?case by simp
next
  case (Cons p other)
  obtain k v where p: "p = (k, v)" by (cases p)
  show ?case
    by (simp add: p Cons.IH update_conv' map_add_upd_left fun_eq_iff map_add_def split: option.splits)
qed

lemma map_of_rev_distinct:
  "distinct (map fst xs) \<Longrightarrow> map_of (rev xs) = map_of xs"
proof (induction xs)
  case Nil
  show ?case by simp
next
  case (Cons p xs)
  obtain k v where p: "p = (k, v)" by (cases p)
  from Cons.prems p have k: "map_of xs k = None" and d: "distinct (map fst xs)"
    by (auto simp: map_of_eq_None_iff)
  show ?case
    using k by (auto simp: p Cons.IH [OF d] fun_eq_iff map_add_def split: option.splits)
qed

lemma map_of_dict_update_distinct:
  "is_dict other \<Longrightarrow> map_of (dict_update d other) = map_of d ++ map_of other"
  by (simp add: map_of_dict_update is_dict_def map_of_rev_distinct)

lemma is_dict_update: "is_dict d \<Longrightarrow> is_dict (dict_update d other)"
  unfolding dict_update_def is_dict_def
  by (induction other arbitrary: d) (auto simp: distinct_update)

lemma comprehension_total:
  "(\<And>x. x \<in> set xs \<Longrightarrow> \<exists>y. f x = Inr y) \<Longrightarrow> \<exists>ys. comprehension f xs = Inr ys"
proof (induction xs)
  case Nil
  show ?case by simp
next
  case (Cons x xs)
  from Cons.prems obtain y where y: "f x = Inr y" by auto
  from Cons obtain ys where "comprehension f xs = Inr ys" by auto
  with y show ?case by simp
qed

lemma has_first_content_iff: "has_first_content ms \<longleftrightarrow> (\<exists>q. first_query ms = Inr q)"
  by (cases ms) (auto simp: has_first_content_def first_query_def split: option.splits)

lemma extractable_iff:
  "extractable r \<longleftrightarrow> (\<exists>c. first_choice_content r = Inr c) \<and> (\<exists>u. usage_value r = Inr u)"
  by (auto simp: extractable_def first_choice_content_def usage_value_def
           split: list.splits option.splits sum.splits)

lemma failure_records_returned:
  assumes "\<forall>ms\<in>set ps. has_first_content ms"
  shows "\<exists>records. comprehension (failure_record e) ps = Inr records"
proof (rule comprehension_total)
  fix ms assume "ms \<in> set ps"
  with assms obtain q where "first_query ms = Inr q"
    by (auto simp: has_first_content_iff)
  then show "\<exists>y. failure_record e ms = Inr y"
    by (simp add: failure_record_def)
qed

lemma failure_records_shape:
  assumes "comprehension (failure_record e) ps = Inr records"
  shows "length records = length ps \<and>
         (\<forall>i<length ps. \<exists>q. first_query (ps ! i) = Inr q \<and>
            records ! i = [(''status'', PBool False), (''error'', PStr (str_exn e)),
                           (''original_query'', q)])"
proof -
  from assms have l: "list_all2 (\<lambda>ms r. failure_record e ms = Inr r) ps records"
    by (simp add: comprehension_Inr_iff)
  then have len: "length records = length ps"
    by (simp add: list_all2_lengthD)
  have "\<exists>q. first_query (ps ! i) = Inr q \<and>
            records ! i = [(''status'', PBool False), (''error'', PStr (str_exn e)),
                           (''original_query'', q)]" if "i < length ps" for i
  proof -
    from l that have "failure_record e (ps ! i) = Inr (records ! i)"
      by (simp add: list_all2_conv_all_nth)
    then show ?thesis
      by (auto simp: failure_record_def split: sum.splits)
  qed
  with len show ?thesis by simp
qed

lemma success_records_shape:
  assumes "comprehension success_record (zip resps ps) = Inr records"
  shows "length records = min (length resps) (length ps) \<and>
         (\<forall>i<length records. \<exists>c q u.
            first_choice_content (resps ! i) = Inr c \<and> first_query (ps ! i) = Inr q \<and>
            usage_value (resps ! i) = Inr u \<and>
            records ! i = [(''status'', PBool True), (''content'', c),
                           (''original_query'', q), (''usage'', u)])"
proof -
  from assms have l: "list_all2 (\<lambda>p r. success_record p = Inr r) (zip resps ps) records"
    by (simp add: comprehension_Inr_iff)
  then have len: "length records = min (length resps) (length ps)"
    by (auto dest: list_all2_lengthD)
  have "\<exists>c q u.
            first_choice_content (resps ! i) = Inr c \<and> first_query (ps ! i) = Inr q \<and>
            usage_value (resps ! i) = Inr u \<and>
            records ! i = [(''status'', PBool True), (''content'', c),
                           (''original_query'', q), (''usage'', u)]" if "i < length records" for i
  proof -
    from l that len have "success_record (zip resps ps ! i) = Inr (records ! i)"
      by (simp add: list_all2_conv_all_nth)
    with that len have "success_record (resps ! i, ps ! i) = Inr (records ! i)"
      by simp
    then show ?thesis
      by (auto simp: success_record_def split: sum.splits)
  qed
  with len show ?thesis by simp
qed

lemma success_records_returned:
  assumes "\<forall>ms\<in>set ps. has_first_content ms" "\<forall>r\<in>set resps. extractable r"
  shows "\<exists>records. comprehension success_record (zip resps ps) = Inr records"
proof (rule comprehension_total)
  fix p assume p: "p \<in> set (zip resps ps)"
  obtain r ms where eq: "p = (r, ms)" by (cases p)
  with p have "r \<in> set resps" "ms \<in> set ps"
    by (auto dest: set_zip_leftD set_zip_rightD)
  with assms obtain c q u where "first_choice_content r = Inr c" "first_query ms = Inr q"
      "usage_value r = Inr u"
    unfolding has_first_content_iff extractable_iff by blast
  then show "\<exists>y. success_record p = Inr y"
    by (simp add: success_record_def eq)
qed


lemma records_original_query:
  assumes "snd (process_batch_prompts self bc ps d) = Inr records"
  shows "length records \<le> length ps \<and>
         (\<forall>i<length records. \<exists>q. first_query (ps ! i) = Inr q \<and>
            map_of (records ! i) ''original_query'' = Some q)"
proof (cases "snd (try_body self bc ps d)")
  case (Inr rs)
  with assms have eq: "rs = records"
    by (cases "try_body self bc ps d") (simp add: process_batch_prompts_def)
  from Inr obtain resps where "comprehension success_record (zip resps ps) = Inr rs"
    by (auto simp: try_body_def split: sum.splits)
  from success_records_shape [OF this] show ?thesis
    unfolding eq by fastforce
next
  case (Inl e)
  with assms have "comprehension (failure_record e) ps = Inr records"
    by (cases "try_body self bc ps d")
       (simp add: process_batch_prompts_def split: if_splits)
  from failure_records_shape [OF this] show ?thesis
    by fastforce
qed

lemma agree_shrink:
  "list_all2 (\<lambda>x y. fst x = fst y \<and> (snd x = snd y \<or> fst x \<in> insert k S)) xs ys \<Longrightarrow>
   k \<notin> fst ` set xs \<Longrightarrow>
   list_all2 (\<lambda>x y. fst x = fst y \<and> (snd x = snd y \<or> fst x \<in> S)) xs ys"
  by (induction rule: list_all2_induct) auto

lemma update_agree:
  "list_all2 (\<lambda>x y. fst x = fst y \<and> (snd x = snd y \<or> fst x \<in> insert k S)) d d' \<Longrightarrow>
   distinct (map fst d) \<Longrightarrow>
   list_all2 (\<lambda>x y. fst x = fst y \<and> (snd x = snd y \<or> fst x \<in> S))
     (AList.update k v d) (AList.update k v d')"
proof (induction rule: list_all2_induct)
  case Nil
  show ?case by simp
next
  case (Cons x xs y ys)
  show ?case
  proof (cases "fst x = k")
    case True
    with Cons.prems have "k \<notin> fst ` set xs" by auto
    from agree_shrink [OF Cons.hyps(2) this] True Cons.hyps(1) show ?thesis by simp
  next
    case False
    with Cons show ?thesis by auto
  qed
qed

lemma dict_update_agree:
  "list_all2 (\<lambda>x y. fst x = fst y \<and> (snd x = snd y \<or> fst x \<in> fst ` set other)) d d' \<Longrightarrow>
   distinct (map fst d) \<Longrightarrow>
   dict_update d other = dict_update d' other"
proof (induction other arbitrary: d d')
  case Nil
  then have "list_all2 (=) d d'"
    by (auto elim!: list_all2_mono simp: prod_eq_iff)
  then show ?case by (simp add: list_all2_eq [symmetric] dict_update_def)
next
  case (Cons p other)
  obtain k v where p: "p = (k, v)" by (cases p)
  from Cons.prems(1) have
    "list_all2 (\<lambda>x y. fst x = fst y \<and> (snd x = snd y \<or> fst x \<in> insert k (fst ` set other))) d d'"
    by (simp add: p)
  from update_agree [OF this Cons.prems(2)]
  have "list_all2 (\<lambda>x y. fst x = fst y \<and> (snd x = snd y \<or> fst x \<in> fst ` set other))
     (AList.update k v d) (AList.update k v d')" .
  moreover have "distinct (map fst (AList.update k v d))"
    using Cons.prems(2) by (simp add: distinct_update)
  ultimately have "dict_update (AList.update k v d) other = dict_update (AList.update k v d') other"
    by (rule Cons.IH)
  then show ?case by (simp add: dict_update_def p)
qed

lemma payload_ignores_prompts:
  assumes "map_of (llm_params self) ''messages'' = Some v"
  shows "construct_request_payload self ps = construct_request_payload self ps'"
proof -
  from assms have k: "''messages'' \<in> fst ` set (llm_params self)"
    by (metis domI dom_map_of_conv_image_fst)
  then have ne: "llm_params self \<noteq> []" by auto
  have "dict_update (base_payload self ps) (llm_params self) =
        dict_update (base_payload self ps') (llm_params self)"
    by (rule dict_update_agree) (use k in \<open>simp_all add: base_payload_def\<close>)
  with ne show ?thesis by (simp add: construct_request_payload_def)
qed

section \<open>Debug mode\<close>


section \<open>Construction\<close>

text \<open>
  Claim C4. \<^verbatim>\<open>__init__\<close> raises exactly when the resolved access token or the resolved
  model identifier is empty or absent, that is, fails Python's truth test (\<^verbatim>\<open>None\<close> and
  the empty string do); what it raises is a \<^verbatim>\<open>ValueError\<close>, so the caller gets no
  instance; and when it does not raise, the instance holds the resolved configuration
  and nothing else happens.
\<close>

theorem UpaiLLM_init_raises_iff:
  "(isl (UpaiLLM_init i t p) \<longleftrightarrow>
      \<not> truthy (access_token (resolve_config i t p)) \<or>
      \<not> truthy (llm_identifier (resolve_config i t p)))
   \<and> (\<forall>e. UpaiLLM_init i t p = Inl e \<longrightarrow> class_of e = ValueError)
   \<and> (\<not> isl (UpaiLLM_init i t p) \<longrightarrow> UpaiLLM_init i t p = Inr (resolve_config i t p))"
  by (auto simp: UpaiLLM_init_def Let_def)

theorem UpaiLLM_init_raises_iff_witness:
  "isl (UpaiLLM_init PNone PNone None)
   \<and> isl (UpaiLLM_init (PStr ''m'') (PStr []) (Some [(''model'', PStr ''x'')]))
   \<and> isl (UpaiLLM_init PNone (PStr ''T'') (Some [(''temperature'', PFloat float_0_9)]))
   \<and> UpaiLLM_init (PStr ''m'') (PStr ''T'') None = Inr adapter_m_T"
  using UpaiLLM_init_raises_iff [of PNone PNone None]
    UpaiLLM_init_raises_iff [of "PStr ''m''" "PStr []" "Some [(''model'', PStr ''x'')]"]
    UpaiLLM_init_raises_iff [of PNone "PStr ''T''" "Some [(''temperature'', PFloat float_0_9)]"]
    UpaiLLM_init_raises_iff [of "PStr ''m''" "PStr ''T''" None]
  by (simp add: resolve_config_def py_or_def dict_get_def adapter_m_T_def)

text \<open>
  Claim C5. For all arguments, the identifier stored at construction is the explicit
  \<^verbatim>\<open>llm_identifier\<close> when one is given (it passes the truth test of \<^verbatim>\<open>or\<close>), else the
  entry \<^verbatim>\<open>"model"\<close> of \<^verbatim>\<open>llm_params\<close> (\<^verbatim>\<open>None\<close> when there is none); the stored token
  is the explicit \<^verbatim>\<open>access_token\<close> when given, else the entry \<^verbatim>\<open>"access_token"\<close>; and
  a successful construction returns exactly this configuration. The example of the
  specification, token \<^verbatim>\<open>"T"\<close> with \<^verbatim>\<open>{"model": "m"}\<close>, follows.
\<close>

theorem resolve_config_effective:
  "llm_identifier (resolve_config i t p) =
     (if truthy i then i
      else case p of None \<Rightarrow> PNone
           | Some d \<Rightarrow> (case map_of d ''model'' of None \<Rightarrow> PNone | Some v \<Rightarrow> v))
   \<and> access_token (resolve_config i t p) =
     (if truthy t then t
      else case p of None \<Rightarrow> PNone
           | Some d \<Rightarrow> (case map_of d ''access_token'' of None \<Rightarrow> PNone | Some v \<Rightarrow> v))
   \<and> (\<forall>self. UpaiLLM_init i t p = Inr self \<longrightarrow> self = resolve_config i t p)"
  by (auto simp: UpaiLLM_init_def resolve_config_def Let_def py_or_def dict_get_def
           split: option.splits)

theorem resolve_config_effective_witness:
  "UpaiLLM_init PNone (PStr ''T'') (Some [(''model'', PStr ''m'')]) =
     Inr \<lparr>llm_params = [(''model'', PStr ''m'')], llm_identifier = PStr ''m'',
          access_token = PStr ''T''\<rparr>"
  using resolve_config_effective [of PNone "PStr ''T''" "Some [(''model'', PStr ''m'')]"]
  by (simp add: UpaiLLM_init_def resolve_config_def py_or_def dict_get_def)

section \<open>The request payload\<close>

text \<open>
  Claim C6. The payload maps \<^verbatim>\<open>model\<close> to the stored identifier, \<^verbatim>\<open>messages\<close> to the
  prompt sequences, \<^verbatim>\<open>temperature\<close> to 0.0 and \<^verbatim>\<open>api_key\<close> to the stored token,
  overlaid with every entry of the stored \<^verbatim>\<open>llm_params\<close>, whose entries win where a
  key is in both; the result is again a dictionary. With \<^verbatim>\<open>"temperature": 0.9\<close> among
  the parameters the payload carries 0.9, model \<^verbatim>\<open>"m"\<close> and key \<^verbatim>\<open>"T"\<close>.
\<close>

theorem construct_request_payload_overlay:
  assumes "is_dict (llm_params self)"
  shows "map_of (construct_request_payload self ps) =
           [''model'' \<mapsto> llm_identifier self,
            ''messages'' \<mapsto> prompts_value ps,
            ''temperature'' \<mapsto> PFloat 0,
            ''api_key'' \<mapsto> access_token self] ++ map_of (llm_params self)
         \<and> is_dict (construct_request_payload self ps)"
proof -
  have base: "map_of (base_payload self ps) =
      [''model'' \<mapsto> llm_identifier self, ''messages'' \<mapsto> prompts_value ps,
       ''temperature'' \<mapsto> PFloat 0, ''api_key'' \<mapsto> access_token self]"
    by (auto simp: base_payload_def fun_eq_iff)
  have dist: "is_dict (base_payload self ps)"
    by (simp add: base_payload_def is_dict_def)
  show ?thesis
  proof (cases "llm_params self = []")
    case True
    then show ?thesis
      using base dist by (simp add: construct_request_payload_def)
  next
    case False
    then show ?thesis
      using base dist assms
      by (simp add: construct_request_payload_def map_of_dict_update_distinct is_dict_update)
  qed
qed

theorem construct_request_payload_overlay_witness:
  "is_dict (llm_params adapter_with_temperature)
   \<and> map_of (construct_request_payload adapter_with_temperature [[user_message ''q'']])
         ''temperature'' = Some (PFloat float_0_9)
   \<and> map_of (construct_request_payload adapter_with_temperature [[user_message ''q'']])
         ''model'' = Some (PStr ''m'')
   \<and> map_of (construct_request_payload adapter_with_temperature [[user_message ''q'']])
         ''api_key'' = Some (PStr ''T'')
   \<and> map_of (construct_request_payload adapter_with_temperature [[user_message ''q'']])
         ''messages'' = Some (prompts_value [[user_message ''q'']])"
proof -
  have d: "is_dict (llm_params adapter_with_temperature)"
    by (simp add: adapter_with_temperature_def is_dict_def)
  show ?thesis
    using d construct_request_payload_overlay [OF d, of "[[user_message ''q'']]"]
    by (simp add: adapter_with_temperature_def map_add_def)
qed

section \<open>Failure of the external call\<close>

text \<open>
  Claim C2, as amended. When the external call raises an instance of \<^verbatim>\<open>Exception\<close>
  and every prompt sequence of the batch has a first message with a content entry,
  \<^verbatim>\<open>process_batch_prompts\<close> returns exactly one failure record for each prompt
  sequence, in the order of the input: status false, the text of the exception as error,
  and the content of that sequence's first message as original query.
\<close>

theorem external_exception_gives_failures:
  assumes "bc (construct_request_payload self ps) = Inl e"
    and "is_Exception e"
    and "\<forall>ms\<in>set ps. has_first_content ms"
  shows "\<exists>records. snd (process_batch_prompts self bc ps d) = Inr records \<and>
           length records = length ps \<and>
           (\<forall>i<length ps. \<exists>q. first_query (ps ! i) = Inr q \<and>
              records ! i = [(''status'', PBool False), (''error'', PStr (str_exn e)),
                             (''original_query'', q)])"
proof -
  from assms(3) obtain records where r: "comprehension (failure_record e) ps = Inr records"
    using failure_records_returned by blast
  from assms(1,2) r have "snd (process_batch_prompts self bc ps d) = Inr records"
    by (simp add: process_batch_prompts_def try_body_def)
  with failure_records_shape [OF r] show ?thesis by simp
qed

theorem external_exception_gives_failures_witness:
  "bc_rate_limited (construct_request_payload adapter_m_T three_prompts) =
     Inl (Raised OtherException ''rate limited'')
   \<and> is_Exception (Raised OtherException ''rate limited'')
   \<and> list_all has_first_content three_prompts
   \<and> snd (process_batch_prompts adapter_m_T bc_rate_limited three_prompts False) =
       Inr [[(''status'', PBool False), (''error'', PStr ''rate limited''),
             (''original_query'', PStr ''q1'')],
            [(''status'', PBool False), (''error'', PStr ''rate limited''),
             (''original_query'', PStr ''q2'')],
            [(''status'', PBool False), (''error'', PStr ''rate limited''),
             (''original_query'', PStr ''q3'')]]"
proof -
  have h1: "bc_rate_limited (construct_request_payload adapter_m_T three_prompts) =
     Inl (Raised OtherException ''rate limited'')"
    by (simp add: bc_rate_limited_def)
  have h2: "is_Exception (Raised OtherException ''rate limited'')" by simp
  have h3: "\<forall>ms\<in>set three_prompts. has_first_content ms"
    by (simp add: three_prompts_def has_first_content_def user_message_def)
  note external_exception_gives_failures
    [where bc = bc_rate_limited and self = adapter_m_T and ps = three_prompts and d = False,
     OF h1 h2 h3]
  moreover have "snd (process_batch_prompts adapter_m_T bc_rate_limited three_prompts False) =
       Inr [[(''status'', PBool False), (''error'', PStr ''rate limited''),
             (''original_query'', PStr ''q1'')],
            [(''status'', PBool False), (''error'', PStr ''rate limited''),
             (''original_query'', PStr ''q2'')],
            [(''status'', PBool False), (''error'', PStr ''rate limited''),
             (''original_query'', PStr ''q3'')]]"
    by (simp add: process_batch_prompts_def try_body_def bc_rate_limited_def three_prompts_def
          failure_record_def first_query_def user_message_def)
  ultimately show ?thesis using h1 h2 h3 by (simp add: list_all_iff)
qed

text \<open>
  The claim as stated, for every batch, fails on a batch with an empty prompt sequence:
  the handler itself evaluates \<^verbatim>\<open>messages[0]\<close> and its \<^verbatim>\<open>IndexError\<close> leaves the
  method.
\<close>

theorem external_exception_empty_sequence_counterexample:
  "bc_rate_limited (construct_request_payload adapter_m_T empty_sequence_batch) =
     Inl (Raised OtherException ''rate limited'')
   \<and> snd (process_batch_prompts adapter_m_T bc_rate_limited empty_sequence_batch False) =
       Inl (Raised IndexError ''list index out of range'')"
  by (simp add: process_batch_prompts_def try_body_def bc_rate_limited_def
        empty_sequence_batch_def failure_record_def first_query_def)


section \<open>Success of the external call\<close>

text \<open>
  Claim C3, as amended. When the external call returns one response for each prompt
  sequence, every response has a first choice and usage statistics that are absent or
  convert to a dictionary, and every prompt sequence has a first message with a content
  entry, \<^verbatim>\<open>process_batch_prompts\<close> returns one success record for each pair, in the
  order of the input: status true, the content of the response's first choice, the
  content of the sequence's first message as original query, and as usage the converted
  statistics, or \<^verbatim>\<open>None\<close> when the response has none.
\<close>

theorem matching_responses_give_successes:
  assumes "bc (construct_request_payload self ps) = Inr resps"
    and "length resps = length ps"
    and "\<forall>ms\<in>set ps. has_first_content ms"
    and "\<forall>r\<in>set resps. extractable r"
  shows "\<exists>records. snd (process_batch_prompts self bc ps d) = Inr records \<and>
           length records = length ps \<and>
           (\<forall>i<length ps. \<exists>c cs q u.
              choices (resps ! i) = c # cs \<and>
              first_query (ps ! i) = Inr q \<and>
              (usage (resps ! i) = None \<and> u = PNone \<or>
               (\<exists>uo m. usage (resps ! i) = Some uo \<and> to_dict uo = Inr m \<and> u = PDict m)) \<and>
              records ! i = [(''status'', PBool True), (''content'', message_content c),
                             (''original_query'', q), (''usage'', u)])"
proof -
  from assms(3,4) obtain records
    where r: "comprehension success_record (zip resps ps) = Inr records"
    using success_records_returned by blast
  from assms(1) r have res: "snd (process_batch_prompts self bc ps d) = Inr records"
    by (simp add: process_batch_prompts_def try_body_def)
  from success_records_shape [OF r] assms(2)
  have len: "length records = length ps"
    and nth: "\<And>i. i < length ps \<Longrightarrow> \<exists>c q u.
            first_choice_content (resps ! i) = Inr c \<and> first_query (ps ! i) = Inr q \<and>
            usage_value (resps ! i) = Inr u \<and>
            records ! i = [(''status'', PBool True), (''content'', c),
                           (''original_query'', q), (''usage'', u)]"
    by auto
  have "\<exists>c cs q u.
              choices (resps ! i) = c # cs \<and>
              first_query (ps ! i) = Inr q \<and>
              (usage (resps ! i) = None \<and> u = PNone \<or>
               (\<exists>uo m. usage (resps ! i) = Some uo \<and> to_dict uo = Inr m \<and> u = PDict m)) \<and>
              records ! i = [(''status'', PBool True), (''content'', message_content c),
                             (''original_query'', q), (''usage'', u)]" if "i < length ps" for i
  proof -
    from nth [OF that] obtain c q u where
      c: "first_choice_content (resps ! i) = Inr c" and q: "first_query (ps ! i) = Inr q"
      and u: "usage_value (resps ! i) = Inr u"
      and rec: "records ! i = [(''status'', PBool True), (''content'', c),
                           (''original_query'', q), (''usage'', u)]"
      by blast
    from c obtain c0 cs where ch: "choices (resps ! i) = c0 # cs" and c0: "c = message_content c0"
      by (auto simp: first_choice_content_def split: list.splits)
    from u have "usage (resps ! i) = None \<and> u = PNone \<or>
               (\<exists>uo m. usage (resps ! i) = Some uo \<and> to_dict uo = Inr m \<and> u = PDict m)"
      by (cases "usage (resps ! i)")
         (auto simp: usage_value_def split: sum.splits)
    with ch c0 q rec show ?thesis by blast
  qed
  with res len show ?thesis by blast
qed

theorem matching_responses_give_successes_witness:
  "bc_A_B (construct_request_payload adapter_m_T two_prompts) =
     Inr [Response [Choice (PStr ''A'')] None,
          Response [Choice (PStr ''B'')] (Some (Usage (Inr [(''total_tokens'', PInt 7)])))]
   \<and> length [Response [Choice (PStr ''A'')] None,
          Response [Choice (PStr ''B'')] (Some (Usage (Inr [(''total_tokens'', PInt 7)])))] =
       length two_prompts
   \<and> list_all has_first_content two_prompts
   \<and> list_all extractable [Response [Choice (PStr ''A'')] None,
          Response [Choice (PStr ''B'')] (Some (Usage (Inr [(''total_tokens'', PInt 7)])))]
   \<and> snd (process_batch_prompts adapter_m_T bc_A_B two_prompts False) =
       Inr [[(''status'', PBool True), (''content'', PStr ''A''),
             (''original_query'', PStr ''Explain quantum computing''),
             (''usage'', PNone)],
            [(''status'', PBool True), (''content'', PStr ''B''),
             (''original_query'', PStr ''Summarize reinforcement learning''),
             (''usage'', PDict [(''total_tokens'', PInt 7)])]]"
proof -
  let ?resps = "[Response [Choice (PStr ''A'')] None,
          Response [Choice (PStr ''B'')] (Some (Usage (Inr [(''total_tokens'', PInt 7)])))]"
  have h1: "bc_A_B (construct_request_payload adapter_m_T two_prompts) = Inr ?resps"
    by (simp add: bc_A_B_def)
  have h2: "length ?resps = length two_prompts"
    by (simp add: two_prompts_def)
  have h3: "\<forall>ms\<in>set two_prompts. has_first_content ms"
    by (simp add: two_prompts_def has_first_content_def user_message_def)
  have h4: "\<forall>r\<in>set ?resps. extractable r"
    by (simp add: extractable_def)
  note matching_responses_give_successes
    [where bc = bc_A_B and self = adapter_m_T and ps = two_prompts and d = False,
     OF h1 h2 h3 h4]
  moreover have "snd (process_batch_prompts adapter_m_T bc_A_B two_prompts False) =
       Inr [[(''status'', PBool True), (''content'', PStr ''A''),
             (''original_query'', PStr ''Explain quantum computing''),
             (''usage'', PNone)],
            [(''status'', PBool True), (''content'', PStr ''B''),
             (''original_query'', PStr ''Summarize reinforcement learning''),
             (''usage'', PDict [(''total_tokens'', PInt 7)])]]"
    by (simp add: process_batch_prompts_def try_body_def bc_A_B_def two_prompts_def
          success_record_def first_choice_content_def usage_value_def first_query_def
          user_message_def)
  ultimately show ?thesis using h1 h2 h3 h4 by (simp add: list_all_iff)
qed

text \<open>
  The claim as stated fails when a response has no choice: the external call has returned
  one response for each of the two prompt sequences, and both records are failures.
\<close>

theorem missing_choice_counterexample:
  "bc_no_choice (construct_request_payload adapter_m_T two_prompts) =
     Inr [Response [Choice (PStr ''A'')] None, Response [] None]
   \<and> length [Response [Choice (PStr ''A'')] None, Response [] None] = length two_prompts
   \<and> snd (process_batch_prompts adapter_m_T bc_no_choice two_prompts False) =
       Inr [[(''status'', PBool False), (''error'', PStr ''list index out of range''),
             (''original_query'', PStr ''Explain quantum computing'')],
            [(''status'', PBool False), (''error'', PStr ''list index out of range''),
             (''original_query'', PStr ''Summarize reinforcement learning'')]]"
  by (simp add: process_batch_prompts_def try_body_def bc_no_choice_def two_prompts_def
        success_record_def first_choice_content_def usage_value_def first_query_def
        failure_record_def user_message_def)

section \<open>What a call of the batch method can end with\<close>

text \<open>
  Claim C1, as amended. When every prompt sequence of the batch has a first message with
  a content entry, \<^verbatim>\<open>process_batch_prompts\<close> raises no instance of \<^verbatim>\<open>Exception\<close>,
  whatever the external call does. When it returns, record number \<open>i\<close> carries the
  content of the first message of prompt sequence number \<open>i\<close>, and there are as many
  records as prompt sequences, unless the external call returned fewer responses than
  there are prompt sequences: then there may be only as many records as responses.
\<close>

theorem process_batch_prompts_outcome:
  assumes "\<forall>ms\<in>set ps. has_first_content ms"
  shows "case snd (process_batch_prompts self bc ps d) of
           Inl e \<Rightarrow> \<not> is_Exception e
         | Inr records \<Rightarrow>
             (length records = length ps \<or>
              (\<exists>resps. bc (construct_request_payload self ps) = Inr resps \<and>
                 length resps < length ps \<and> length records = length resps))
             \<and> (\<forall>i<length records. \<exists>q. first_query (ps ! i) = Inr q \<and>
                   map_of (records ! i) ''original_query'' = Some q)"
proof (cases "snd (process_batch_prompts self bc ps d)")
  case (Inl e)
  have "\<not> is_Exception e"
  proof
    assume ex: "is_Exception e"
    show False
    proof (cases "try_body self bc ps d")
      case (Pair out r)
      show ?thesis
      proof (cases r)
        case r: (Inl x)
        show ?thesis
        proof (cases "is_Exception x")
          case True
          from failure_records_returned [OF assms, of x] obtain records
            where "comprehension (failure_record x) ps = Inr records" by blast
          with Pair r True Inl show ?thesis
            by (simp add: process_batch_prompts_def)
        next
          case False
          with Pair r Inl ex show ?thesis
            by (simp add: process_batch_prompts_def)
        qed
      next
        case (Inr rs)
        with Pair Inl show ?thesis
          by (simp add: process_batch_prompts_def)
      qed
    qed
  qed
  with Inl show ?thesis by simp
next
  case (Inr records)
  note oq = records_original_query [OF Inr]
  have len: "length records = length ps \<or>
              (\<exists>resps. bc (construct_request_payload self ps) = Inr resps \<and>
                 length resps < length ps \<and> length records = length resps)"
  proof (cases "snd (try_body self bc ps d)")
    case tb: (Inr rs)
    with Inr have eq: "rs = records"
      by (cases "try_body self bc ps d") (simp add: process_batch_prompts_def)
    from tb obtain resps where bc: "bc (construct_request_payload self ps) = Inr resps"
      and c: "comprehension success_record (zip resps ps) = Inr rs"
      by (auto simp: try_body_def split: sum.splits)
    from success_records_shape [OF c] have "length records = min (length resps) (length ps)"
      unfolding eq by simp
    with bc show ?thesis by (auto simp: min_def)
  next
    case tb: (Inl e)
    with Inr have "comprehension (failure_record e) ps = Inr records"
      by (cases "try_body self bc ps d")
         (simp add: process_batch_prompts_def split: if_splits)
    from failure_records_shape [OF this] show ?thesis by simp
  qed
  with oq Inr show ?thesis by simp
qed

theorem process_batch_prompts_outcome_witness:
  "list_all has_first_content one_prompt
   \<and> snd (process_batch_prompts adapter_m_T bc_rate_limited one_prompt True) =
       Inr [[(''status'', PBool False), (''error'', PStr ''rate limited''),
             (''original_query'', PStr ''Explain quantum computing'')]]
   \<and> length [[(''status'', PBool False), (''error'', PStr ''rate limited''),
             (''original_query'', PStr ''Explain quantum computing'')]] = length one_prompt"
proof -
  have h: "\<forall>ms\<in>set one_prompt. has_first_content ms"
    by (simp add: one_prompt_def has_first_content_def user_message_def)
  note process_batch_prompts_outcome
    [where ps = one_prompt and self = adapter_m_T and bc = bc_rate_limited and d = True, OF h]
  moreover have "snd (process_batch_prompts adapter_m_T bc_rate_limited one_prompt True) =
       Inr [[(''status'', PBool False), (''error'', PStr ''rate limited''),
             (''original_query'', PStr ''Explain quantum computing'')]]"
    by (simp add: process_batch_prompts_def try_body_def bc_rate_limited_def one_prompt_def
          failure_record_def first_query_def user_message_def)
  ultimately show ?thesis using h by (simp add: one_prompt_def list_all_iff)
qed

text \<open>
  The claim as stated, for any number of responses, fails when the external call returns
  fewer responses than there are prompt sequences: \<^verbatim>\<open>zip\<close> stops at the shorter list.
\<close>

theorem fewer_responses_counterexample:
  "bc_returns_nothing (construct_request_payload adapter_m_T one_prompt) = Inr []
   \<and> snd (process_batch_prompts adapter_m_T bc_returns_nothing one_prompt False) = Inr []
   \<and> length one_prompt = 1"
  by (simp add: process_batch_prompts_def try_body_def bc_returns_nothing_def one_prompt_def)

section \<open>All records of a result have the same status\<close>

text \<open>
  Claim C10. Every list of records that \<^verbatim>\<open>process_batch_prompts\<close> returns is
  homogeneous: all records have status true, or all have status false. In particular,
  when the external call returned responses and one of those paired with a prompt
  sequence lacks a first choice or has usage statistics whose conversion raises, a
  returned result consists of failure records only, one for each prompt sequence.
\<close>

theorem returned_records_homogeneous:
  assumes "snd (process_batch_prompts self bc ps d) = Inr records"
  shows "((\<forall>r\<in>set records. has_status True r) \<or> (\<forall>r\<in>set records. has_status False r))
         \<and> (\<forall>resps. bc (construct_request_payload self ps) = Inr resps \<and>
               (\<exists>i<min (length resps) (length ps). \<not> extractable (resps ! i)) \<longrightarrow>
               length records = length ps \<and> (\<forall>r\<in>set records. has_status False r))"
proof (cases "snd (try_body self bc ps d)")
  case tb: (Inr rs)
  with assms have eq: "rs = records"
    by (cases "try_body self bc ps d") (simp add: process_batch_prompts_def)
  from tb obtain resps where bc: "bc (construct_request_payload self ps) = Inr resps"
    and c: "comprehension success_record (zip resps ps) = Inr records"
    unfolding eq [symmetric]
    by (auto simp: try_body_def split: sum.splits)
  note sh = success_records_shape [OF c]
  have all_true: "\<forall>r\<in>set records. has_status True r"
  proof
    fix r assume "r \<in> set records"
    then obtain i where i: "i < length records" and r: "r = records ! i"
      by (auto simp: in_set_conv_nth)
    with sh show "has_status True r"
      by (auto simp: has_status_def)
  qed
  have "extractable (resps ! i)" if "i < min (length resps) (length ps)" for i
  proof -
    from sh that have "i < length records" by simp
    with sh show ?thesis
      unfolding extractable_iff by blast
  qed
  with all_true bc show ?thesis by auto
next
  case tb: (Inl e)
  with assms have "comprehension (failure_record e) ps = Inr records"
    by (cases "try_body self bc ps d")
       (simp add: process_batch_prompts_def split: if_splits)
  note sh = failure_records_shape [OF this]
  have "\<forall>r\<in>set records. has_status False r"
  proof
    fix r assume "r \<in> set records"
    then obtain i where i: "i < length records" and r: "r = records ! i"
      by (auto simp: in_set_conv_nth)
    with sh show "has_status False r"
      by (auto simp: has_status_def)
  qed
  with sh show ?thesis by simp
qed

theorem returned_records_homogeneous_witness:
  "snd (process_batch_prompts adapter_m_T bc_no_choice two_prompts True) =
       Inr [[(''status'', PBool False), (''error'', PStr ''list index out of range''),
             (''original_query'', PStr ''Explain quantum computing'')],
            [(''status'', PBool False), (''error'', PStr ''list index out of range''),
             (''original_query'', PStr ''Summarize reinforcement learning'')]]
   \<and> bc_no_choice (construct_request_payload adapter_m_T two_prompts) =
       Inr [Response [Choice (PStr ''A'')] None, Response [] None]
   \<and> \<not> extractable ([Response [Choice (PStr ''A'')] None, Response [] None] ! 1)
   \<and> has_status False [(''status'', PBool False), (''error'', PStr ''list index out of range''),
             (''original_query'', PStr ''Explain quantum computing'')]
   \<and> has_status False [(''status'', PBool False), (''error'', PStr ''list index out of range''),
             (''original_query'', PStr ''Summarize reinforcement learning'')]"
proof -
  have h: "snd (process_batch_prompts adapter_m_T bc_no_choice two_prompts True) =
       Inr [[(''status'', PBool False), (''error'', PStr ''list index out of range''),
             (''original_query'', PStr ''Explain quantum computing'')],
            [(''status'', PBool False), (''error'', PStr ''list index out of range''),
             (''original_query'', PStr ''Summarize reinforcement learning'')]]"
    by (simp add: process_batch_prompts_def try_body_def bc_no_choice_def two_prompts_def
        success_record_def first_choice_content_def usage_value_def first_query_def
        failure_record_def user_message_def)
  have b: "bc_no_choice (construct_request_payload adapter_m_T two_prompts) =
       Inr [Response [Choice (PStr ''A'')] None, Response [] None]"
    by (simp add: bc_no_choice_def)
  have x: "\<not> extractable ([Response [Choice (PStr ''A'')] None, Response [] None] ! 1)"
    by (simp add: extractable_def)
  from returned_records_homogeneous [OF h] b x
  show ?thesis using h by (simp add: has_status_def)
qed

section \<open>A messages entry among the parameters\<close>

text \<open>
  Claim C9. When the stored \<^verbatim>\<open>llm_params\<close> has the key \<^verbatim>\<open>"messages"\<close>, the payload
  carries the value of that entry under \<^verbatim>\<open>messages\<close>, not the prompt sequences given
  to \<^verbatim>\<open>construct_request_payload\<close>: the payload is the same for any two lists of
  prompt sequences, so the prompt sequences are not part of what is submitted. The
  records that \<^verbatim>\<open>process_batch_prompts\<close> returns still take their original query from
  the prompt sequences.
\<close>

theorem messages_param_replaces_prompts:
  assumes "is_dict (llm_params self)"
    and "map_of (llm_params self) ''messages'' = Some v"
  shows "map_of (construct_request_payload self ps) ''messages'' = Some v
         \<and> construct_request_payload self ps = construct_request_payload self ps'
         \<and> (\<forall>records. snd (process_batch_prompts self bc ps d) = Inr records \<longrightarrow>
               (\<forall>i<length records. \<exists>q. first_query (ps ! i) = Inr q \<and>
                   map_of (records ! i) ''original_query'' = Some q))"
proof -
  from assms(2) have ne: "llm_params self \<noteq> []" by auto
  have "map_of (construct_request_payload self ps) ''messages'' = Some v"
    using assms ne
    by (simp add: construct_request_payload_def map_of_dict_update_distinct map_add_def)
  moreover note payload_ignores_prompts [OF assms(2), of ps ps']
  moreover have "\<forall>records. snd (process_batch_prompts self bc ps d) = Inr records \<longrightarrow>
               (\<forall>i<length records. \<exists>q. first_query (ps ! i) = Inr q \<and>
                   map_of (records ! i) ''original_query'' = Some q)"
    using records_original_query by blast
  ultimately show ?thesis by blast
qed

theorem messages_param_replaces_prompts_witness:
  "is_dict (llm_params adapter_with_messages)
   \<and> map_of (llm_params adapter_with_messages) ''messages'' = Some (PList [])
   \<and> construct_request_payload adapter_with_messages two_prompts =
       [(''model'', PStr ''m''), (''messages'', PList []), (''temperature'', PFloat 0),
        (''api_key'', PStr ''T'')]
   \<and> construct_request_payload adapter_with_messages two_prompts =
       construct_request_payload adapter_with_messages one_prompt
   \<and> snd (process_batch_prompts adapter_with_messages bc_A_B two_prompts False) =
       Inr [[(''status'', PBool True), (''content'', PStr ''A''),
             (''original_query'', PStr ''Explain quantum computing''),
             (''usage'', PNone)],
            [(''status'', PBool True), (''content'', PStr ''B''),
             (''original_query'', PStr ''Summarize reinforcement learning''),
             (''usage'', PDict [(''total_tokens'', PInt 7)])]]"
proof -
  have h1: "is_dict (llm_params adapter_with_messages)"
    by (simp add: adapter_with_messages_def is_dict_def)
  have h2: "map_of (llm_params adapter_with_messages) ''messages'' = Some (PList [])"
    by (simp add: adapter_with_messages_def)
  note messages_param_replaces_prompts
    [where self = adapter_with_messages and ps = two_prompts and ps' = one_prompt
       and bc = bc_A_B and d = False, OF h1 h2]
  moreover have "construct_request_payload adapter_with_messages two_prompts =
       [(''model'', PStr ''m''), (''messages'', PList []), (''temperature'', PFloat 0),
        (''api_key'', PStr ''T'')]"
    by (simp add: construct_request_payload_def base_payload_def adapter_with_messages_def
          dict_update_def)
  moreover have "snd (process_batch_prompts adapter_with_messages bc_A_B two_prompts False) =
       Inr [[(''status'', PBool True), (''content'', PStr ''A''),
             (''original_query'', PStr ''Explain quantum computing''),
             (''usage'', PNone)],
            [(''status'', PBool True), (''content'', PStr ''B''),
             (''original_query'', PStr ''Summarize reinforcement learning''),
             (''usage'', PDict [(''total_tokens'', PInt 7)])]]"
    by (simp add: process_batch_prompts_def try_body_def bc_A_B_def two_prompts_def
          success_record_def first_choice_content_def usage_value_def first_query_def
          user_message_def)
  ultimately show ?thesis using h1 h2 by simp
qed

section \<open>Building the payload twice\<close>

text \<open>
  Claim C7. \<^verbatim>\<open>construct_request_payload\<close> is repeatable and changes nothing that
  exists: in a store where the instance's \<^verbatim>\<open>llm_params\<close> is allocated, a call returns a
  new dictionary object whose content is the payload computed from the stored
  configuration; a second call with the same prompt sequences returns another new object
  with the same content; and after either call the configuration of the instance
  (\<^verbatim>\<open>llm_identifier\<close>, \<^verbatim>\<open>access_token\<close>, \<^verbatim>\<open>llm_params\<close>) and every object allocated
  before are as they were.
\<close>

theorem construct_request_payload_repeatable:
  assumes "llm_params_ref obj < length st"
    and "construct_request_payload_st obj ps st = (p1, st1)"
    and "construct_request_payload_st obj ps st1 = (p2, st2)"
  shows "st1 ! p1 = construct_request_payload (config_of st obj) ps
         \<and> st2 ! p2 = st1 ! p1
         \<and> p2 \<noteq> p1
         \<and> config_of st1 obj = config_of st obj
         \<and> config_of st2 obj = config_of st obj
         \<and> take (length st) st1 = st
         \<and> take (length st1) st2 = st1"
proof -
  let ?r = "llm_params_ref obj"
  let ?base = "[(''model'', identifier_field obj), (''messages'', prompts_value ps),
                (''temperature'', PFloat 0), (''api_key'', token_field obj)]"
  from assms(2) have p1: "p1 = length st"
    by (auto simp: construct_request_payload_st_def Let_def split: if_splits)
  from assms(1,2) have st1: "st1 = st @ [if st ! ?r \<noteq> [] then dict_update ?base (st ! ?r) else ?base]"
    by (auto simp: construct_request_payload_st_def Let_def nth_append split: if_splits)
  then have len1: "length st1 = Suc (length st)" by simp
  from assms(1) st1 have ref1: "st1 ! ?r = st ! ?r"
    by (simp add: nth_append)
  from assms(3) have p2: "p2 = length st1"
    by (auto simp: construct_request_payload_st_def Let_def split: if_splits)
  from assms(1,3) len1 ref1
  have st2: "st2 = st1 @ [if st ! ?r \<noteq> [] then dict_update ?base (st ! ?r) else ?base]"
    by (auto simp: construct_request_payload_st_def Let_def nth_append split: if_splits)
  from assms(1) len1 st2 ref1 have ref2: "st2 ! ?r = st ! ?r"
    by (simp add: nth_append)
  have a: "st1 ! p1 = construct_request_payload (config_of st obj) ps"
    by (simp add: p1 st1 construct_request_payload_def base_payload_def config_of_def)
  have b: "st2 ! p2 = st1 ! p1"
    by (simp add: p1 p2 st1 st2 nth_append)
  have c: "p2 \<noteq> p1"
    by (simp add: p1 p2 len1)
  have d: "config_of st1 obj = config_of st obj" "config_of st2 obj = config_of st obj"
    by (simp_all add: config_of_def ref1 ref2)
  have e: "take (length st) st1 = st" "take (length st1) st2 = st1"
    by (simp_all add: st1 st2)
  from a b c d e show ?thesis by simp
qed

theorem construct_request_payload_repeatable_witness:
  "llm_params_ref \<lparr>llm_params_ref = 0, identifier_field = PStr ''m'', token_field = PStr ''T''\<rparr>
     < length [[(''temperature'', PFloat float_0_9)]]
   \<and> construct_request_payload_st
       \<lparr>llm_params_ref = 0, identifier_field = PStr ''m'', token_field = PStr ''T''\<rparr>
       one_prompt [[(''temperature'', PFloat float_0_9)]] =
      (1, [[(''temperature'', PFloat float_0_9)],
           [(''model'', PStr ''m''), (''messages'', prompts_value one_prompt),
            (''temperature'', PFloat float_0_9), (''api_key'', PStr ''T'')]])
   \<and> construct_request_payload_st
       \<lparr>llm_params_ref = 0, identifier_field = PStr ''m'', token_field = PStr ''T''\<rparr>
       one_prompt
       [[(''temperature'', PFloat float_0_9)],
           [(''model'', PStr ''m''), (''messages'', prompts_value one_prompt),
            (''temperature'', PFloat float_0_9), (''api_key'', PStr ''T'')]] =
      (2, [[(''temperature'', PFloat float_0_9)],
           [(''model'', PStr ''m''), (''messages'', prompts_value one_prompt),
            (''temperature'', PFloat float_0_9), (''api_key'', PStr ''T'')],
           [(''model'', PStr ''m''), (''messages'', prompts_value one_prompt),
            (''temperature'', PFloat float_0_9), (''api_key'', PStr ''T'')]])
   \<and> config_of [[(''temperature'', PFloat float_0_9)],
           [(''model'', PStr ''m''), (''messages'', prompts_value one_prompt),
            (''temperature'', PFloat float_0_9), (''api_key'', PStr ''T'')],
           [(''model'', PStr ''m''), (''messages'', prompts_value one_prompt),
            (''temperature'', PFloat float_0_9), (''api_key'', PStr ''T'')]]
        \<lparr>llm_params_ref = 0, identifier_field = PStr ''m'', token_field = PStr ''T''\<rparr> =
       \<lparr>llm_params = [(''temperature'', PFloat float_0_9)], llm_identifier = PStr ''m'',
        access_token = PStr ''T''\<rparr>"
proof -
  let ?obj = "\<lparr>llm_params_ref = 0, identifier_field = PStr ''m'', token_field = PStr ''T''\<rparr>"
  let ?st = "[[(''temperature'', PFloat float_0_9)]]"
  let ?payload = "[(''model'', PStr ''m''), (''messages'', prompts_value one_prompt),
            (''temperature'', PFloat float_0_9), (''api_key'', PStr ''T'')]"
  have h1: "llm_params_ref ?obj < length ?st" by simp
  have h2: "construct_request_payload_st ?obj one_prompt ?st = (1, ?st @ [?payload])"
    by (simp add: construct_request_payload_st_def dict_update_def)
  have h3: "construct_request_payload_st ?obj one_prompt (?st @ [?payload]) =
      (2, ?st @ [?payload, ?payload])"
    by (simp add: construct_request_payload_st_def dict_update_def)
  from construct_request_payload_repeatable [OF h1 h2 h3] h1 h2 h3
  show ?thesis by (simp add: config_of_def)
qed

end
